theory Spec2Isabelle
  imports Main
begin

section \<open>JavaScript values used by the dialog\<close>

text \<open>
  Flow's \<^verbatim>\<open>?T\<close> is \<^verbatim>\<open>T | null | undefined\<close>. JavaScript keeps \<^verbatim>\<open>null\<close> and
  \<^verbatim>\<open>undefined\<close> apart (\<^verbatim>\<open>null === undefined\<close> is false), so the model does too.
  Reading a property that an object does not have gives \<^verbatim>\<open>undefined\<close>.
\<close>

datatype 'a maybe = Undefined | Null | Defined 'a

text \<open>
  ToBoolean on a value that is a string, \<^verbatim>\<open>null\<close> or \<^verbatim>\<open>undefined\<close>: only a
  non-empty string is truthy.
\<close>

fun truthy :: "string maybe \<Rightarrow> bool" where
  "truthy Undefined = False"
| "truthy Null = False"
| "truthy (Defined s) = (s \<noteq> [])"

text \<open>\<^verbatim>\<open>a || b\<close> on such values: \<^verbatim>\<open>a\<close> when it is truthy, else \<^verbatim>\<open>b\<close>.\<close>

definition js_or :: "string maybe \<Rightarrow> string maybe \<Rightarrow> string maybe" where
  "js_or a b = (if truthy a then a else b)"

text \<open>
  \<^verbatim>\<open>a && e\<close> where \<^verbatim>\<open>a\<close> is an array or object, \<^verbatim>\<open>null\<close> or \<^verbatim>\<open>undefined\<close>: arrays and
  objects are always truthy (the empty array too), so \<^verbatim>\<open>e\<close> is evaluated exactly when
  \<^verbatim>\<open>a\<close> is defined, and otherwise the result is \<^verbatim>\<open>a\<close> itself.
\<close>

fun js_and_obj :: "'a maybe \<Rightarrow> ('a \<Rightarrow> 'b maybe) \<Rightarrow> 'b maybe" where
  "js_and_obj Undefined e = Undefined"
| "js_and_obj Null e = Null"
| "js_and_obj (Defined a) e = e a"

text \<open>
  \<^verbatim>\<open>Array.prototype.find\<close>: the first element, in index order, that satisfies the
  predicate; \<^verbatim>\<open>undefined\<close> when there is none.
\<close>

fun array_find :: "('a \<Rightarrow> bool) \<Rightarrow> 'a list \<Rightarrow> 'a maybe" where
  "array_find P [] = Undefined"
| "array_find P (x # xs) = (if P x then Defined x else array_find P xs)"

section \<open>Data model of AbstractStartLiveStreamDialog\<close>

text \<open>
  A broadcast is an \<^verbatim>\<open>Object\<close> of which the dialog reads the properties \<^verbatim>\<open>id\<close> and
  \<^verbatim>\<open>boundStreamID\<close>. Either may be missing, which reads as \<^verbatim>\<open>undefined\<close>. The
  property \<^verbatim>\<open>id\<close> is named \<open>broadcast_id\<close> here, since \<open>id\<close> is HOL's identity.
\<close>

record broadcast =
  broadcast_id :: "string maybe"
  boundStreamID :: "string maybe"

text \<open>The Flow type \<^verbatim>\<open>State\<close> of the component, field by field.\<close>

record State =
  broadcasts :: "broadcast list maybe"
  errorType :: "string maybe"
  selectedBoundStreamID :: "string maybe"
  streamKey :: string

text \<open>
  The Flow type \<^verbatim>\<open>Props\<close>. JavaScript's leading underscore is not an Isabelle
  identifier, so \<^verbatim>\<open>_conference\<close> is \<open>p_conference\<close> and so on. \<^verbatim>\<open>_conference\<close> is
  declared \<^verbatim>\<open>Object\<close> and used without a guard: it is an opaque handle of type
  \<open>'conf\<close>. The two string props that the component tests for truthiness before use
  may be \<^verbatim>\<open>undefined\<close> (the state-to-props mapping passes a missing field on),
  so they are \<open>string maybe\<close>. \<^verbatim>\<open>_googleAPIState\<close> is one of an enumeration of
  integers. \<^verbatim>\<open>dispatch\<close> and \<^verbatim>\<open>t\<close> are functions the abstract class never calls;
  they are opaque.
\<close>

record ('conf, 'fn) Props =
  p_conference :: 'conf
  p_googleApiApplicationClientID :: "string maybe"
  p_googleAPIState :: int
  p_googleProfileEmail :: "string maybe"
  p_streamKey :: "string maybe"
  p_dispatch :: 'fn
  p_t :: 'fn

text \<open>The options object literal handed to \<^verbatim>\<open>startRecording\<close>.\<close>

record 'mode RecordingOptions =
  broadcastId :: "string maybe"
  mode :: 'mode
  streamId :: "string maybe"

text \<open>
  Calls out of the component, in the order they happen: \<^verbatim>\<open>sendAnalytics(event)\<close>,
  \<^verbatim>\<open>this.props._conference.startRecording(options)\<close> with the receiver, and the
  abstract \<^verbatim>\<open>this._onInitializeGoogleApi()\<close> that a platform supplies.
\<close>

datatype ('conf, 'ev, 'mode) effect =
    SendAnalytics 'ev
  | StartRecording 'conf "'mode RecordingOptions"
  | InitializeGoogleApi

text \<open>
  What the module imports and this repository fragment does not contain: the event
  factory \<^verbatim>\<open>createRecordingDialogEvent\<close> of \<^verbatim>\<open>../../../analytics\<close> and the constant
  \<^verbatim>\<open>JitsiRecordingConstants.mode.STREAM\<close>. Both are parameters of the model.
\<close>

record ('ev, 'mode) imported =
  createRecordingDialogEvent :: "string \<Rightarrow> string \<Rightarrow> 'ev"
  mode_STREAM :: 'mode

text \<open>
  A component instance: \<^verbatim>\<open>this.props\<close>, \<^verbatim>\<open>this.state\<close>, \<^verbatim>\<open>this._isMounted\<close>, and
  the trace of the calls it has made so far.
\<close>

record ('conf, 'fn, 'ev, 'mode) component =
  props :: "('conf, 'fn) Props"
  state :: State
  isMounted :: bool
  effects :: "('conf, 'ev, 'mode) effect list"

text \<open>
  The argument of \<^verbatim>\<open>setState\<close> is a partial state: an object that has some of the
  four keys. \<open>None\<close> is an absent key. A key that is present with the value
  \<^verbatim>\<open>undefined\<close> is \<open>Some Undefined\<close>, and the merge writes it.
\<close>

record StateUpdate =
  new_broadcasts :: "broadcast list maybe option"
  new_errorType :: "string maybe option"
  new_selectedBoundStreamID :: "string maybe option"
  new_streamKey :: "string option"

section \<open>Operations\<close>

text \<open>The constructor: the initial state, and \<^verbatim>\<open>_isMounted = false\<close>.\<close>

definition constructor ::
  "('conf, 'fn) Props \<Rightarrow> ('conf, 'fn, 'ev, 'mode) component" where
  "constructor p =
     \<lparr> props = p,
       state = \<lparr> broadcasts = Undefined, errorType = Undefined,
                 selectedBoundStreamID = Undefined, streamKey = [] \<rparr>,
       isMounted = False,
       effects = [] \<rparr>"

text \<open>React's \<^verbatim>\<open>setState\<close> with an object: a shallow merge of the keys present.\<close>

definition setState :: "State \<Rightarrow> StateUpdate \<Rightarrow> State" where
  "setState s u =
     \<lparr> broadcasts = (case new_broadcasts u of None \<Rightarrow> broadcasts s | Some v \<Rightarrow> v),
       errorType = (case new_errorType u of None \<Rightarrow> errorType s | Some v \<Rightarrow> v),
       selectedBoundStreamID =
         (case new_selectedBoundStreamID u of None \<Rightarrow> selectedBoundStreamID s | Some v \<Rightarrow> v),
       streamKey = (case new_streamKey u of None \<Rightarrow> streamKey s | Some v \<Rightarrow> v) \<rparr>"

definition setStateIfMounted ::
  "('conf, 'fn, 'ev, 'mode) component \<Rightarrow> StateUpdate \<Rightarrow> ('conf, 'fn, 'ev, 'mode) component" where
  "setStateIfMounted c newState =
     (if isMounted c then c\<lparr>state := setState (state c) newState\<rparr> else c)"

definition componentDidMount ::
  "('conf, 'fn, 'ev, 'mode) component \<Rightarrow> ('conf, 'fn, 'ev, 'mode) component" where
  "componentDidMount c =
     (let c1 = c\<lparr>isMounted := True\<rparr>
      in if truthy (p_googleApiApplicationClientID (props c1))
         then c1\<lparr>effects := effects c1 @ [InitializeGoogleApi]\<rparr>
         else c1)"

definition componentWillUnmount ::
  "('conf, 'fn, 'ev, 'mode) component \<Rightarrow> ('conf, 'fn, 'ev, 'mode) component" where
  "componentWillUnmount c = c\<lparr>isMounted := False\<rparr>"

text \<open>Each handler returns its JavaScript return value and the instance afterwards.\<close>

definition onCancel ::
  "('ev, 'mode) imported \<Rightarrow> ('conf, 'fn, 'ev, 'mode) component
     \<Rightarrow> bool \<times> ('conf, 'fn, 'ev, 'mode) component" where
  "onCancel I c =
     (True,
      c\<lparr>effects := effects c
          @ [SendAnalytics (createRecordingDialogEvent I ''start'' ''cancel.button'')]\<rparr>)"

definition onStreamKeyChange ::
  "('conf, 'fn, 'ev, 'mode) component \<Rightarrow> string \<Rightarrow> ('conf, 'fn, 'ev, 'mode) component" where
  "onStreamKeyChange c key =
     setStateIfMounted c
       \<lparr> new_broadcasts = None, new_errorType = None,
         new_selectedBoundStreamID = Some Undefined, new_streamKey = Some key \<rparr>"

text \<open>
  \<^verbatim>\<open>_onSubmit\<close>, statement by statement: the effective key, the early return, the
  broadcast id (initially \<^verbatim>\<open>null\<close>, reassigned only under a truthy
  \<^verbatim>\<open>selectedBoundStreamID\<close>), then the two calls.
\<close>

definition selectedBroadcastID :: "State \<Rightarrow> string maybe" where
  "selectedBroadcastID s =
     (if truthy (selectedBoundStreamID s)
      then (let selectedBroadcast =
                  js_and_obj (broadcasts s)
                    (array_find (\<lambda>b. boundStreamID b = selectedBoundStreamID s))
            in js_and_obj selectedBroadcast broadcast_id)
      else Null)"

definition onSubmit ::
  "('ev, 'mode) imported \<Rightarrow> ('conf, 'fn, 'ev, 'mode) component
     \<Rightarrow> bool \<times> ('conf, 'fn, 'ev, 'mode) component" where
  "onSubmit I c =
     (let key = js_or (Defined (streamKey (state c))) (p_streamKey (props c))
      in if \<not> truthy key then (False, c)
         else (True,
               c\<lparr>effects := effects c
                   @ [SendAnalytics (createRecordingDialogEvent I ''start'' ''confirm.button''),
                      StartRecording (p_conference (props c))
                        \<lparr> broadcastId = selectedBroadcastID (state c),
                          mode = mode_STREAM I,
                          streamId = key \<rparr>]\<rparr>))"

subsection \<open>Sequences of operations on one instance\<close>

text \<open>
  What can happen to an instance after construction: React's two lifecycle calls, the
  three handlers bound in the constructor, and a call of \<^verbatim>\<open>_setStateIfMounted\<close> by a
  platform subclass, which is how the completion of an asynchronous request reports
  its result, at any later time.
\<close>

datatype op =
    ComponentDidMount
  | ComponentWillUnmount
  | OnCancel
  | OnStreamKeyChange string
  | OnSubmit
  | SetStateIfMounted StateUpdate

fun exec_op ::
  "('ev, 'mode) imported \<Rightarrow> ('conf, 'fn, 'ev, 'mode) component \<Rightarrow> op
     \<Rightarrow> ('conf, 'fn, 'ev, 'mode) component" where
  "exec_op I c ComponentDidMount = componentDidMount c"
| "exec_op I c ComponentWillUnmount = componentWillUnmount c"
| "exec_op I c OnCancel = snd (onCancel I c)"
| "exec_op I c (OnStreamKeyChange key) = onStreamKeyChange c key"
| "exec_op I c OnSubmit = snd (onSubmit I c)"
| "exec_op I c (SetStateIfMounted newState) = setStateIfMounted c newState"

fun exec_ops ::
  "('ev, 'mode) imported \<Rightarrow> ('conf, 'fn, 'ev, 'mode) component \<Rightarrow> op list
     \<Rightarrow> ('conf, 'fn, 'ev, 'mode) component" where
  "exec_ops I c [] = c"
| "exec_ops I c (x # xs) = exec_ops I (exec_op I c x) xs"

subsection \<open>The state-to-props mapping\<close>

text \<open>
  The Redux store is an object from feature names to feature states, each an object
  from field names to values. \<^verbatim>\<open>state[k]\<close> of an absent key is \<^verbatim>\<open>undefined\<close>, and
  reading a property of \<^verbatim>\<open>undefined\<close> throws a \<^verbatim>\<open>TypeError\<close>; a field absent from
  a feature state that is there reads as \<^verbatim>\<open>undefined\<close>.
\<close>

datatype error = TypeError

type_synonym 'v feature_state = "string \<rightharpoonup> 'v maybe"

type_synonym 'v store = "string \<rightharpoonup> 'v feature_state"

definition property :: "'v feature_state \<Rightarrow> string \<Rightarrow> 'v maybe" where
  "property obj field = (case obj field of None \<Rightarrow> Undefined | Some v \<Rightarrow> v)"

definition read_field :: "'v store \<Rightarrow> string \<Rightarrow> string \<Rightarrow> error + 'v maybe" where
  "read_field st feature field =
     (case st feature of None \<Rightarrow> Inl TypeError | Some obj \<Rightarrow> Inr (property obj field))"

text \<open>The object literal that \<^verbatim>\<open>_mapStateToProps\<close> returns.\<close>

record 'v MappedProps =
  m_conference :: "'v maybe"
  m_googleApiApplicationClientID :: "'v maybe"
  m_googleAPIState :: "'v maybe"
  m_googleProfileEmail :: "'v maybe"
  m_streamKey :: "'v maybe"

text \<open>
  The properties of the literal are evaluated in source order; the first read that
  throws ends the call. The store is returned beside the result, as it is afterwards.
\<close>

definition mapStateToProps :: "'v store \<Rightarrow> (error + 'v MappedProps) \<times> 'v store" where
  "mapStateToProps st =
     ((case read_field st ''features/base/conference'' ''conference'' of
         Inl e \<Rightarrow> Inl e
       | Inr conference \<Rightarrow>
      (case read_field st ''features/base/config'' ''googleApiApplicationClientID'' of
         Inl e \<Rightarrow> Inl e
       | Inr clientID \<Rightarrow>
      (case read_field st ''features/google-api'' ''googleAPIState'' of
         Inl e \<Rightarrow> Inl e
       | Inr apiState \<Rightarrow>
      (case read_field st ''features/google-api'' ''profileEmail'' of
         Inl e \<Rightarrow> Inl e
       | Inr email \<Rightarrow>
      (case read_field st ''features/recording'' ''streamKey'' of
         Inl e \<Rightarrow> Inl e
       | Inr key \<Rightarrow>
           Inr \<lparr> m_conference = conference,
                 m_googleApiApplicationClientID = clientID,
                 m_googleAPIState = apiState,
                 m_googleProfileEmail = email,
                 m_streamKey = key \<rparr>))))),
      st)"

subsection \<open>Concrete values for the examples\<close>

text \<open>
  An event factory that pairs its two arguments, a mode constant, and props of a
  dialog with a configured Google client and no previous stream key.
\<close>

definition example_imported :: "(string \<times> string, string) imported" where
  "example_imported = \<lparr> createRecordingDialogEvent = Pair, mode_STREAM = ''stream'' \<rparr>"

definition example_props :: "(nat, unit) Props" where
  "example_props =
     \<lparr> p_conference = 7,
       p_googleApiApplicationClientID = Defined ''client-id'',
       p_googleAPIState = 0,
       p_googleProfileEmail = Undefined,
       p_streamKey = Undefined,
       p_dispatch = (),
       p_t = () \<rparr>"

definition example_component :: "(nat, unit, string \<times> string, string) component" where
  "example_component = constructor example_props"

text \<open>
  A mounted dialog of these props whose Google client was initialised on mount, with
  the given broadcasts, selection and typed key.
\<close>

definition example_mounted ::
  "broadcast list maybe \<Rightarrow> string maybe \<Rightarrow> string
     \<Rightarrow> (nat, unit, string \<times> string, string) component" where
  "example_mounted bs sel key =
     \<lparr> props = example_props,
       state = \<lparr> broadcasts = bs, errorType = Undefined,
                 selectedBoundStreamID = sel, streamKey = key \<rparr>,
       isMounted = True,
       effects = [InitializeGoogleApi] \<rparr>"

definition broadcast1 :: broadcast where
  "broadcast1 = \<lparr> broadcast_id = Defined ''1'', boundStreamID = Defined ''b1'' \<rparr>"

definition broadcast2 :: broadcast where
  "broadcast2 = \<lparr> broadcast_id = Defined ''2'', boundStreamID = Defined ''b2'' \<rparr>"

text \<open>Two broadcasts bound to the same stream, to tell a first match from a later one.\<close>

definition broadcast_first :: broadcast where
  "broadcast_first = \<lparr> broadcast_id = Defined ''first'', boundStreamID = Defined ''b1'' \<rparr>"

definition broadcast_second :: broadcast where
  "broadcast_second = \<lparr> broadcast_id = Defined ''second'', boundStreamID = Defined ''b1'' \<rparr>"

text \<open>The same props without a Google client application.\<close>

definition example_component_no_google ::
  "(nat, unit, string \<times> string, string) component" where
  "example_component_no_google =
     constructor (example_props\<lparr>p_googleApiApplicationClientID := Undefined\<rparr>)"

text \<open>
  A store with the four feature states the mapping reads, where the configuration has
  no \<^verbatim>\<open>googleApiApplicationClientID\<close>; and the same store without the feature state
  of the recording feature.
\<close>

definition example_store :: "string store" where
  "example_store =
     [''features/base/conference'' \<mapsto> [''conference'' \<mapsto> Defined ''conference-1''],
      ''features/base/config'' \<mapsto> Map.empty,
      ''features/google-api'' \<mapsto>
         [''googleAPIState'' \<mapsto> Defined ''0'', ''profileEmail'' \<mapsto> Null],
      ''features/recording'' \<mapsto> [''streamKey'' \<mapsto> Defined ''abc'']]"

definition example_store_without_recording :: "string store" where
  "example_store_without_recording =
     [''features/base/conference'' \<mapsto> [''conference'' \<mapsto> Defined ''conference-1''],
      ''features/base/config'' \<mapsto> Map.empty,
      ''features/google-api'' \<mapsto>
         [''googleAPIState'' \<mapsto> Defined ''0'', ''profileEmail'' \<mapsto> Null]]"

section \<open>Properties\<close>

subsection \<open>Auxiliary facts\<close>

lemma array_find_first:
  "\<forall>x\<in>set pre. \<not> P x \<Longrightarrow> P b \<Longrightarrow> array_find P (pre @ b # post) = Defined b"
  by (induction pre) auto

lemma array_find_none: "\<forall>x\<in>set xs. \<not> P x \<Longrightarrow> array_find P xs = Undefined"
  by (induction xs) auto

lemma setStateIfMounted_unmounted: "\<not> isMounted c \<Longrightarrow> setStateIfMounted c u = c"
  by (simp add: setStateIfMounted_def)

text \<open>
  While the flag is false, no operation other than \<^verbatim>\<open>componentDidMount\<close> changes the
  state or sets the flag.
\<close>

lemma exec_op_unmounted:
  "\<not> isMounted c \<Longrightarrow> x \<noteq> ComponentDidMount \<Longrightarrow>
   state (exec_op I c x) = state c \<and> \<not> isMounted (exec_op I c x)"
  by (cases x)
     (simp_all add: componentWillUnmount_def onCancel_def onStreamKeyChange_def
        onSubmit_def setStateIfMounted_def Let_def)

lemma exec_ops_unmounted:
  "\<not> isMounted c \<Longrightarrow> ComponentDidMount \<notin> set ops \<Longrightarrow>
   state (exec_ops I c ops) = state c \<and> \<not> isMounted (exec_ops I c ops)"
proof (induction ops arbitrary: c)
  case Nil
  then show ?case by simp
next
  case (Cons x xs)
  from Cons.prems have x: "x \<noteq> ComponentDidMount" and xs: "ComponentDidMount \<notin> set xs"
    by auto
  from exec_op_unmounted [OF Cons.prems(1) x]
  have st: "state (exec_op I c x) = state c" and un: "\<not> isMounted (exec_op I c x)"
    by simp_all
  from Cons.IH [OF un xs] st show ?case by simp
qed

text \<open>The broadcast id that \<^verbatim>\<open>_onSubmit\<close> resolves, case by case.\<close>

lemma selectedBroadcastID_first_match:
  assumes "truthy (selectedBoundStreamID s)"
    and "broadcasts s = Defined (pre @ b # post)"
    and "\<forall>x\<in>set pre. boundStreamID x \<noteq> selectedBoundStreamID s"
    and "boundStreamID b = selectedBoundStreamID s"
  shows "selectedBroadcastID s = broadcast_id b"
  using assms by (simp add: selectedBroadcastID_def array_find_first)

lemma selectedBroadcastID_no_match:
  assumes "truthy (selectedBoundStreamID s)"
    and "broadcasts s = Defined bs"
    and "\<forall>x\<in>set bs. boundStreamID x \<noteq> selectedBoundStreamID s"
  shows "selectedBroadcastID s = Undefined"
  using assms by (simp add: selectedBroadcastID_def array_find_none)

lemma selectedBroadcastID_unset:
  assumes "truthy (selectedBoundStreamID s)" and "broadcasts s = Undefined"
  shows "selectedBroadcastID s = Undefined"
  using assms by (simp add: selectedBroadcastID_def)

lemma selectedBroadcastID_null:
  assumes "truthy (selectedBoundStreamID s)" and "broadcasts s = Null"
  shows "selectedBroadcastID s = Null"
  using assms by (simp add: selectedBroadcastID_def)

lemma selectedBroadcastID_no_selection:
  assumes "\<not> truthy (selectedBoundStreamID s)"
  shows "selectedBroadcastID s = Null"
  using assms by (simp add: selectedBroadcastID_def)

text \<open>The path of \<^verbatim>\<open>_onSubmit\<close> past the early return.\<close>

lemma onSubmit_with_key:
  assumes "truthy (js_or (Defined (streamKey (state c))) (p_streamKey (props c)))"
  shows "onSubmit I c =
     (True,
      c\<lparr>effects := effects c
          @ [SendAnalytics (createRecordingDialogEvent I ''start'' ''confirm.button''),
             StartRecording (p_conference (props c))
               \<lparr> broadcastId = selectedBroadcastID (state c),
                 mode = mode_STREAM I,
                 streamId = js_or (Defined (streamKey (state c))) (p_streamKey (props c)) \<rparr>]\<rparr>)"
  using assms by (simp add: onSubmit_def Let_def)

subsection \<open>The mount flag guards the state\<close>

text \<open>
  C1. Take an instance in any condition and let \<^verbatim>\<open>componentWillUnmount\<close> run. After
  any further operations (React never mounts an unmounted instance again, so
  \<^verbatim>\<open>componentDidMount\<close> is not among them) the flag is still false, a call of
  \<^verbatim>\<open>_setStateIfMounted\<close> with any partial state leaves the state as it is, and that
  state is the one the instance had when it was unmounted.
\<close>

theorem no_state_change_after_unmount:
  assumes "ComponentDidMount \<notin> set later"
  shows "\<not> isMounted (exec_ops I (componentWillUnmount c) later)
       \<and> state (setStateIfMounted (exec_ops I (componentWillUnmount c) later) newState)
           = state (exec_ops I (componentWillUnmount c) later)
       \<and> state (exec_ops I (componentWillUnmount c) later) = state c"
proof -
  have un: "\<not> isMounted (componentWillUnmount c)"
    by (simp add: componentWillUnmount_def)
  have st: "state (componentWillUnmount c) = state c"
    by (simp add: componentWillUnmount_def)
  from exec_ops_unmounted [OF un assms] st setStateIfMounted_unmounted
  show ?thesis by metis
qed

theorem no_state_change_after_unmount_witness:
  "ComponentDidMount \<notin> set [OnStreamKeyChange ''late'', OnSubmit, OnCancel]
   \<and> state (setStateIfMounted
        (exec_ops example_imported
           (componentWillUnmount
              (exec_ops example_imported example_component
                 [ComponentDidMount, OnStreamKeyChange ''abc'']))
           [OnStreamKeyChange ''late'', OnSubmit, OnCancel])
        \<lparr> new_broadcasts = Some (Defined []), new_errorType = Some (Defined ''authError''),
          new_selectedBoundStreamID = None, new_streamKey = None \<rparr>)
     = \<lparr> broadcasts = Undefined, errorType = Undefined,
         selectedBoundStreamID = Undefined, streamKey = ''abc'' \<rparr>"
proof -
  have h: "ComponentDidMount \<notin> set [OnStreamKeyChange ''late'', OnSubmit, OnCancel]"
    by simp
  have before: "state (exec_ops example_imported example_component
                 [ComponentDidMount, OnStreamKeyChange ''abc''])
     = \<lparr> broadcasts = Undefined, errorType = Undefined,
         selectedBoundStreamID = Undefined, streamKey = ''abc'' \<rparr>"
    by (simp add: example_component_def example_props_def constructor_def
          componentDidMount_def onStreamKeyChange_def setStateIfMounted_def setState_def Let_def)
  from no_state_change_after_unmount [OF h] before h show ?thesis
    by metis
qed

subsection \<open>Submitting\<close>

text \<open>
  C2. When the typed key \<^verbatim>\<open>state.streamKey\<close> is the empty string and
  \<^verbatim>\<open>props._streamKey\<close> is falsy (the empty string, or no value at all),
  \<^verbatim>\<open>_onSubmit()\<close> returns \<^verbatim>\<open>false\<close> (do not close) and the instance is exactly as
  before: no call of \<^verbatim>\<open>startRecording\<close>, no analytics event, the same state.
\<close>

theorem onSubmit_without_key:
  assumes "streamKey (state c) = []" and "\<not> truthy (p_streamKey (props c))"
  shows "onSubmit I c = (False, c)"
  using assms by (simp add: onSubmit_def js_or_def)

theorem onSubmit_without_key_witness:
  "streamKey (state example_component) = []
   \<and> \<not> truthy (p_streamKey (props example_component))
   \<and> onSubmit example_imported example_component
       = (False,
          \<lparr> props = example_props,
            state = \<lparr> broadcasts = Undefined, errorType = Undefined,
                      selectedBoundStreamID = Undefined, streamKey = [] \<rparr>,
            isMounted = False, effects = [] \<rparr>)"
proof -
  have k: "streamKey (state example_component) = []"
    by (simp add: example_component_def constructor_def)
  have p: "\<not> truthy (p_streamKey (props example_component))"
    by (simp add: example_component_def constructor_def example_props_def)
  have c: "example_component = \<lparr> props = example_props,
            state = \<lparr> broadcasts = Undefined, errorType = Undefined,
                      selectedBoundStreamID = Undefined, streamKey = [] \<rparr>,
            isMounted = False, effects = [] \<rparr>"
    by (simp add: example_component_def constructor_def)
  from onSubmit_without_key [OF k p, of example_imported] k p c show ?thesis
    by simp
qed

text \<open>
  C3. With the typed key \<^verbatim>\<open>"XYZ"\<close> and no \<^verbatim>\<open>selectedBoundStreamID\<close> (it is
  \<^verbatim>\<open>undefined\<close>; \<^verbatim>\<open>null\<close> and the empty string take the same branch),
  \<^verbatim>\<open>_onSubmit()\<close> returns \<^verbatim>\<open>true\<close> (close), and what it adds to the trace is the
  analytics event followed by one call of \<^verbatim>\<open>startRecording\<close> on the conference of
  the props with \<^verbatim>\<open>{broadcastId: null, mode: STREAM, streamId: "XYZ"}\<close>.
\<close>

theorem onSubmit_typed_key_XYZ:
  assumes "streamKey (state c) = ''XYZ''" and "\<not> truthy (selectedBoundStreamID (state c))"
  shows "onSubmit I c =
     (True,
      c\<lparr>effects := effects c
          @ [SendAnalytics (createRecordingDialogEvent I ''start'' ''confirm.button''),
             StartRecording (p_conference (props c))
               \<lparr> broadcastId = Null, mode = mode_STREAM I, streamId = Defined ''XYZ'' \<rparr>]\<rparr>)"
proof -
  from assms(1)
  have key: "js_or (Defined (streamKey (state c))) (p_streamKey (props c)) = Defined ''XYZ''"
    by (simp add: js_or_def)
  from assms(2) have bid: "selectedBroadcastID (state c) = Null"
    by (simp add: selectedBroadcastID_def)
  have "truthy (js_or (Defined (streamKey (state c))) (p_streamKey (props c)))"
    by (simp add: key)
  from onSubmit_with_key [OF this, of I] key bid show ?thesis
    by simp
qed

theorem onSubmit_typed_key_XYZ_witness:
  "streamKey (state (example_mounted Undefined Undefined ''XYZ'')) = ''XYZ''
   \<and> \<not> truthy (selectedBoundStreamID (state (example_mounted Undefined Undefined ''XYZ'')))
   \<and> onSubmit example_imported (example_mounted Undefined Undefined ''XYZ'')
       = (True,
          \<lparr> props = example_props,
            state = \<lparr> broadcasts = Undefined, errorType = Undefined,
                      selectedBoundStreamID = Undefined, streamKey = ''XYZ'' \<rparr>,
            isMounted = True,
            effects = [InitializeGoogleApi,
                       SendAnalytics (''start'', ''confirm.button''),
                       StartRecording 7
                         \<lparr> broadcastId = Null, mode = ''stream'', streamId = Defined ''XYZ'' \<rparr>] \<rparr>)"
  using onSubmit_typed_key_XYZ [of "example_mounted Undefined Undefined ''XYZ''" example_imported]
  by (simp add: example_mounted_def example_imported_def example_props_def)

text \<open>
  C4. Let the effective key be truthy. Whenever \<^verbatim>\<open>selectedBoundStreamID\<close> is truthy and
  the broadcasts are a list \<open>pre @ b # post\<close> in which \<open>b\<close> has the selected
  \<^verbatim>\<open>boundStreamID\<close> and no broadcast before it has, the \<^verbatim>\<open>broadcastId\<close> that
  \<^verbatim>\<open>_onSubmit()\<close> passes to \<^verbatim>\<open>startRecording\<close> is the \<^verbatim>\<open>id\<close> of \<open>b\<close>, whatever comes
  after it: the first match in list order. In particular, with
  \<^verbatim>\<open>selectedBoundStreamID = "b1"\<close> and the broadcasts
  \<^verbatim>\<open>[{id: "1", boundStreamID: "b1"}, {id: "2", boundStreamID: "b2"}]\<close> it is \<^verbatim>\<open>"1"\<close>.
\<close>

theorem onSubmit_resolves_first_matching_broadcast:
  assumes "truthy (js_or (Defined (streamKey (state c))) (p_streamKey (props c)))"
  shows
    "(truthy (selectedBoundStreamID (state c))
        \<and> broadcasts (state c) = Defined (pre @ b # post)
        \<and> (\<forall>x\<in>set pre. boundStreamID x \<noteq> selectedBoundStreamID (state c))
        \<and> boundStreamID b = selectedBoundStreamID (state c) \<longrightarrow>
      onSubmit I c =
        (True,
         c\<lparr>effects := effects c
             @ [SendAnalytics (createRecordingDialogEvent I ''start'' ''confirm.button''),
                StartRecording (p_conference (props c))
                  \<lparr> broadcastId = broadcast_id b,
                    mode = mode_STREAM I,
                    streamId = js_or (Defined (streamKey (state c)))
                                 (p_streamKey (props c)) \<rparr>]\<rparr>))
     \<and> (selectedBoundStreamID (state c) = Defined ''b1''
        \<and> broadcasts (state c) =
             Defined [\<lparr> broadcast_id = Defined ''1'', boundStreamID = Defined ''b1'' \<rparr>,
                      \<lparr> broadcast_id = Defined ''2'', boundStreamID = Defined ''b2'' \<rparr>] \<longrightarrow>
      onSubmit I c =
        (True,
         c\<lparr>effects := effects c
             @ [SendAnalytics (createRecordingDialogEvent I ''start'' ''confirm.button''),
                StartRecording (p_conference (props c))
                  \<lparr> broadcastId = Defined ''1'',
                    mode = mode_STREAM I,
                    streamId = js_or (Defined (streamKey (state c)))
                                 (p_streamKey (props c)) \<rparr>]\<rparr>))"
proof (intro conjI impI)
  assume h: "truthy (selectedBoundStreamID (state c))
        \<and> broadcasts (state c) = Defined (pre @ b # post)
        \<and> (\<forall>x\<in>set pre. boundStreamID x \<noteq> selectedBoundStreamID (state c))
        \<and> boundStreamID b = selectedBoundStreamID (state c)"
  then have sel: "truthy (selectedBoundStreamID (state c))"
    and bs: "broadcasts (state c) = Defined (pre @ b # post)"
    and pre: "\<forall>x\<in>set pre. boundStreamID x \<noteq> selectedBoundStreamID (state c)"
    and b: "boundStreamID b = selectedBoundStreamID (state c)"
    by blast+
  have "selectedBroadcastID (state c) = broadcast_id b"
    by (rule selectedBroadcastID_first_match [OF sel bs pre b])
  with onSubmit_with_key [OF assms, of I]
  show "onSubmit I c =
        (True,
         c\<lparr>effects := effects c
             @ [SendAnalytics (createRecordingDialogEvent I ''start'' ''confirm.button''),
                StartRecording (p_conference (props c))
                  \<lparr> broadcastId = broadcast_id b,
                    mode = mode_STREAM I,
                    streamId = js_or (Defined (streamKey (state c)))
                                 (p_streamKey (props c)) \<rparr>]\<rparr>)"
    by simp
next
  assume h: "selectedBoundStreamID (state c) = Defined ''b1''
        \<and> broadcasts (state c) =
             Defined [\<lparr> broadcast_id = Defined ''1'', boundStreamID = Defined ''b1'' \<rparr>,
                      \<lparr> broadcast_id = Defined ''2'', boundStreamID = Defined ''b2'' \<rparr>]"
  have sel: "truthy (selectedBoundStreamID (state c))"
    using h by simp
  have bs: "broadcasts (state c) =
      Defined ([] @ \<lparr> broadcast_id = Defined ''1'', boundStreamID = Defined ''b1'' \<rparr>
                 # [\<lparr> broadcast_id = Defined ''2'', boundStreamID = Defined ''b2'' \<rparr>])"
    using h by simp
  have "selectedBroadcastID (state c)
      = broadcast_id \<lparr> broadcast_id = Defined ''1'', boundStreamID = Defined ''b1'' \<rparr>"
    by (rule selectedBroadcastID_first_match [OF sel bs]) (simp_all add: h)
  then have bid: "selectedBroadcastID (state c) = Defined ''1''"
    by simp
  from onSubmit_with_key [OF assms, of I] bid
  show "onSubmit I c =
        (True,
         c\<lparr>effects := effects c
             @ [SendAnalytics (createRecordingDialogEvent I ''start'' ''confirm.button''),
                StartRecording (p_conference (props c))
                  \<lparr> broadcastId = Defined ''1'',
                    mode = mode_STREAM I,
                    streamId = js_or (Defined (streamKey (state c)))
                                 (p_streamKey (props c)) \<rparr>]\<rparr>)"
    by simp
qed

theorem onSubmit_resolves_first_matching_broadcast_witness:
  "truthy (js_or
      (Defined (streamKey (state
         (example_mounted (Defined [broadcast1, broadcast2]) (Defined ''b1'') ''XYZ''))))
      (p_streamKey (props
         (example_mounted (Defined [broadcast1, broadcast2]) (Defined ''b1'') ''XYZ''))))
   \<and> onSubmit example_imported
        (example_mounted (Defined [broadcast1, broadcast2]) (Defined ''b1'') ''XYZ'')
       = (True,
          \<lparr> props = example_props,
            state = \<lparr> broadcasts = Defined [broadcast1, broadcast2], errorType = Undefined,
                      selectedBoundStreamID = Defined ''b1'', streamKey = ''XYZ'' \<rparr>,
            isMounted = True,
            effects = [InitializeGoogleApi,
                       SendAnalytics (''start'', ''confirm.button''),
                       StartRecording 7
                         \<lparr> broadcastId = Defined ''1'', mode = ''stream'',
                           streamId = Defined ''XYZ'' \<rparr>] \<rparr>)
   \<and> boundStreamID broadcast2 \<noteq> Defined ''b1''
   \<and> boundStreamID broadcast_first = Defined ''b1''
   \<and> boundStreamID broadcast_second = Defined ''b1''
   \<and> onSubmit example_imported
        (example_mounted (Defined [broadcast2, broadcast_first, broadcast_second])
           (Defined ''b1'') ''XYZ'')
       = (True,
          \<lparr> props = example_props,
            state = \<lparr> broadcasts = Defined [broadcast2, broadcast_first, broadcast_second],
                      errorType = Undefined,
                      selectedBoundStreamID = Defined ''b1'', streamKey = ''XYZ'' \<rparr>,
            isMounted = True,
            effects = [InitializeGoogleApi,
                       SendAnalytics (''start'', ''confirm.button''),
                       StartRecording 7
                         \<lparr> broadcastId = Defined ''first'', mode = ''stream'',
                           streamId = Defined ''XYZ'' \<rparr>] \<rparr>)"
proof -
  let ?c1 = "example_mounted (Defined [broadcast1, broadcast2]) (Defined ''b1'') ''XYZ''"
  let ?c2 = "example_mounted (Defined [broadcast2, broadcast_first, broadcast_second])
               (Defined ''b1'') ''XYZ''"
  have k1: "truthy (js_or (Defined (streamKey (state ?c1))) (p_streamKey (props ?c1)))"
    by (simp add: example_mounted_def js_or_def)
  have k2: "truthy (js_or (Defined (streamKey (state ?c2))) (p_streamKey (props ?c2)))"
    by (simp add: example_mounted_def js_or_def)
  have ids: "boundStreamID broadcast2 \<noteq> Defined ''b1''"
    "boundStreamID broadcast_first = Defined ''b1''"
    "boundStreamID broadcast_second = Defined ''b1''"
    by (simp_all add: broadcast2_def broadcast_first_def broadcast_second_def)
  from onSubmit_resolves_first_matching_broadcast [OF k1, of "[]" broadcast1 "[broadcast2]" example_imported]
  have r1: "onSubmit example_imported ?c1
       = (True,
          \<lparr> props = example_props,
            state = \<lparr> broadcasts = Defined [broadcast1, broadcast2], errorType = Undefined,
                      selectedBoundStreamID = Defined ''b1'', streamKey = ''XYZ'' \<rparr>,
            isMounted = True,
            effects = [InitializeGoogleApi,
                       SendAnalytics (''start'', ''confirm.button''),
                       StartRecording 7
                         \<lparr> broadcastId = Defined ''1'', mode = ''stream'',
                           streamId = Defined ''XYZ'' \<rparr>] \<rparr>)"
    by (simp add: example_mounted_def example_imported_def example_props_def
          broadcast1_def broadcast2_def js_or_def)
  from onSubmit_resolves_first_matching_broadcast
    [OF k2, of "[broadcast2]" broadcast_first "[broadcast_second]" example_imported] ids
  have r2: "onSubmit example_imported ?c2
       = (True,
          \<lparr> props = example_props,
            state = \<lparr> broadcasts = Defined [broadcast2, broadcast_first, broadcast_second],
                      errorType = Undefined,
                      selectedBoundStreamID = Defined ''b1'', streamKey = ''XYZ'' \<rparr>,
            isMounted = True,
            effects = [InitializeGoogleApi,
                       SendAnalytics (''start'', ''confirm.button''),
                       StartRecording 7
                         \<lparr> broadcastId = Defined ''first'', mode = ''stream'',
                           streamId = Defined ''XYZ'' \<rparr>] \<rparr>)"
    by (simp add: example_mounted_def example_imported_def example_props_def js_or_def
          broadcast_first_def)
  from k1 r1 ids r2 show ?thesis by simp
qed

text \<open>
  C5. With a truthy key and a selection that no broadcast is bound to, \<^verbatim>\<open>_onSubmit()\<close>
  is to pass \<^verbatim>\<open>broadcastId: null\<close>, still call \<^verbatim>\<open>startRecording\<close> and return
  \<^verbatim>\<open>true\<close>. The code makes the call and returns \<^verbatim>\<open>true\<close>, but with
  \<^verbatim>\<open>selectedBoundStreamID = "b1"\<close> and the broadcasts \<^verbatim>\<open>[{id: "2", boundStreamID: "b2"}]\<close>,
  or with \<^verbatim>\<open>broadcasts\<close> undefined, the \<^verbatim>\<open>broadcastId\<close> it passes is \<^verbatim>\<open>undefined\<close>, which
  is not \<^verbatim>\<open>null\<close>: \<^verbatim>\<open>find\<close> returns \<^verbatim>\<open>undefined\<close>, \<^verbatim>\<open>undefined && e\<close> is
  \<^verbatim>\<open>undefined\<close>, and the assignment overwrites the \<^verbatim>\<open>null\<close> the variable was
  initialised with. The neighbouring paths do pass \<^verbatim>\<open>null\<close>: \<^verbatim>\<open>broadcasts\<close> being
  \<^verbatim>\<open>null\<close>, and no selection at all.
\<close>

theorem onSubmit_unmatched_selection_passes_undefined:
  "onSubmit example_imported (example_mounted (Defined [broadcast2]) (Defined ''b1'') ''XYZ'')
     = (True,
        \<lparr> props = example_props,
          state = \<lparr> broadcasts = Defined [broadcast2], errorType = Undefined,
                    selectedBoundStreamID = Defined ''b1'', streamKey = ''XYZ'' \<rparr>,
          isMounted = True,
          effects = [InitializeGoogleApi,
                     SendAnalytics (''start'', ''confirm.button''),
                     StartRecording 7
                       \<lparr> broadcastId = Undefined, mode = ''stream'',
                         streamId = Defined ''XYZ'' \<rparr>] \<rparr>)
   \<and> onSubmit example_imported (example_mounted Undefined (Defined ''b1'') ''XYZ'')
     = (True,
        \<lparr> props = example_props,
          state = \<lparr> broadcasts = Undefined, errorType = Undefined,
                    selectedBoundStreamID = Defined ''b1'', streamKey = ''XYZ'' \<rparr>,
          isMounted = True,
          effects = [InitializeGoogleApi,
                     SendAnalytics (''start'', ''confirm.button''),
                     StartRecording 7
                       \<lparr> broadcastId = Undefined, mode = ''stream'',
                         streamId = Defined ''XYZ'' \<rparr>] \<rparr>)
   \<and> (Undefined :: string maybe) \<noteq> Null
   \<and> onSubmit example_imported (example_mounted Null (Defined ''b1'') ''XYZ'')
     = (True,
        \<lparr> props = example_props,
          state = \<lparr> broadcasts = Null, errorType = Undefined,
                    selectedBoundStreamID = Defined ''b1'', streamKey = ''XYZ'' \<rparr>,
          isMounted = True,
          effects = [InitializeGoogleApi,
                     SendAnalytics (''start'', ''confirm.button''),
                     StartRecording 7
                       \<lparr> broadcastId = Null, mode = ''stream'',
                         streamId = Defined ''XYZ'' \<rparr>] \<rparr>)
   \<and> onSubmit example_imported (example_mounted (Defined [broadcast2]) Undefined ''XYZ'')
     = (True,
        \<lparr> props = example_props,
          state = \<lparr> broadcasts = Defined [broadcast2], errorType = Undefined,
                    selectedBoundStreamID = Undefined, streamKey = ''XYZ'' \<rparr>,
          isMounted = True,
          effects = [InitializeGoogleApi,
                     SendAnalytics (''start'', ''confirm.button''),
                     StartRecording 7
                       \<lparr> broadcastId = Null, mode = ''stream'',
                         streamId = Defined ''XYZ'' \<rparr>] \<rparr>)"
  by (simp add: onSubmit_def selectedBroadcastID_def js_or_def Let_def
        example_mounted_def example_imported_def example_props_def broadcast2_def)

text \<open>
  C10. \<^verbatim>\<open>_onSubmit()\<close> changes neither the state nor the props nor the mount flag,
  whatever it returns. When it returns \<^verbatim>\<open>false\<close> it has made no call; when it returns
  \<^verbatim>\<open>true\<close> it has made exactly two, in this order: \<^verbatim>\<open>sendAnalytics\<close> on the event
  created from \<^verbatim>\<open>'start'\<close> and \<^verbatim>\<open>'confirm.button'\<close>, and \<^verbatim>\<open>startRecording\<close> on the
  conference of the props.
\<close>

theorem onSubmit_frame:
  "props (snd (onSubmit I c)) = props c
   \<and> state (snd (onSubmit I c)) = state c
   \<and> isMounted (snd (onSubmit I c)) = isMounted c
   \<and> (\<not> fst (onSubmit I c) \<longrightarrow> effects (snd (onSubmit I c)) = effects c)
   \<and> (fst (onSubmit I c) \<longrightarrow>
        (\<exists>options. effects (snd (onSubmit I c)) =
           effects c
           @ [SendAnalytics (createRecordingDialogEvent I ''start'' ''confirm.button''),
              StartRecording (p_conference (props c)) options]))"
  by (simp add: onSubmit_def Let_def)

theorem onSubmit_frame_witness:
  "\<not> fst (onSubmit example_imported example_component)
   \<and> snd (onSubmit example_imported example_component) = example_component
   \<and> fst (onSubmit example_imported (example_mounted Undefined Undefined ''XYZ''))
   \<and> state (snd (onSubmit example_imported (example_mounted Undefined Undefined ''XYZ'')))
       = state (example_mounted Undefined Undefined ''XYZ'')
   \<and> length (effects (snd (onSubmit example_imported
                (example_mounted Undefined Undefined ''XYZ''))))
       = length (effects (example_mounted Undefined Undefined ''XYZ'')) + 2"
proof -
  have a: "\<not> fst (onSubmit example_imported example_component)"
    by (simp add: onSubmit_def js_or_def example_component_def constructor_def example_props_def)
  have b: "fst (onSubmit example_imported (example_mounted Undefined Undefined ''XYZ''))"
    by (simp add: onSubmit_def js_or_def example_mounted_def)
  from onSubmit_frame [of example_imported example_component] a
  have "snd (onSubmit example_imported example_component) = example_component"
    by (simp add: component.equality)
  moreover
  from onSubmit_frame [of example_imported "example_mounted Undefined Undefined ''XYZ''"] b
  have "state (snd (onSubmit example_imported (example_mounted Undefined Undefined ''XYZ'')))
       = state (example_mounted Undefined Undefined ''XYZ'')
     \<and> length (effects (snd (onSubmit example_imported
                (example_mounted Undefined Undefined ''XYZ''))))
       = length (effects (example_mounted Undefined Undefined ''XYZ'')) + 2"
    by auto
  ultimately show ?thesis using a b by simp
qed

subsection \<open>Cancelling\<close>

text \<open>
  C6. On every instance, \<^verbatim>\<open>_onCancel()\<close> returns \<^verbatim>\<open>true\<close> (close the dialog) and
  makes exactly one call: \<^verbatim>\<open>sendAnalytics\<close> on the event created from \<^verbatim>\<open>'start'\<close> and
  \<^verbatim>\<open>'cancel.button'\<close>. Props, state and the mount flag are as before.
\<close>

theorem onCancel_closes_with_one_event:
  "onCancel I c =
     (True,
      \<lparr> props = props c, state = state c, isMounted = isMounted c,
        effects = effects c
          @ [SendAnalytics (createRecordingDialogEvent I ''start'' ''cancel.button'')] \<rparr>)"
  by (simp add: onCancel_def)

subsection \<open>Typing a stream key\<close>

text \<open>
  C7. On a mounted instance, whatever its state, \<^verbatim>\<open>_onStreamKeyChange(newKey)\<close> leaves
  a state whose \<^verbatim>\<open>streamKey\<close> is \<^verbatim>\<open>newKey\<close> and whose \<^verbatim>\<open>selectedBoundStreamID\<close> is
  \<^verbatim>\<open>undefined\<close>, with \<^verbatim>\<open>broadcasts\<close> and \<^verbatim>\<open>errorType\<close> as before, and changes nothing
  else. The merge is behind the mount flag: on an instance that is not mounted the call
  changes nothing.
\<close>

theorem onStreamKeyChange_sets_key_and_clears_selection:
  "(isMounted c \<longrightarrow>
      onStreamKeyChange c newKey =
        c\<lparr>state := \<lparr> broadcasts = broadcasts (state c), errorType = errorType (state c),
                      selectedBoundStreamID = Undefined, streamKey = newKey \<rparr>\<rparr>)
   \<and> (\<not> isMounted c \<longrightarrow> onStreamKeyChange c newKey = c)"
  by (simp add: onStreamKeyChange_def setStateIfMounted_def setState_def)

theorem onStreamKeyChange_sets_key_and_clears_selection_witness:
  "isMounted (example_mounted (Defined [broadcast1, broadcast2]) (Defined ''b1'') ''XYZ'')
   \<and> onStreamKeyChange
        (example_mounted (Defined [broadcast1, broadcast2]) (Defined ''b1'') ''XYZ'') ''abc''
       = example_mounted (Defined [broadcast1, broadcast2]) Undefined ''abc''
   \<and> \<not> isMounted example_component
   \<and> onStreamKeyChange example_component ''abc'' = example_component"
  using onStreamKeyChange_sets_key_and_clears_selection
      [of "example_mounted (Defined [broadcast1, broadcast2]) (Defined ''b1'') ''XYZ''" "''abc''"]
    onStreamKeyChange_sets_key_and_clears_selection [of example_component "''abc''"]
  by (simp add: example_mounted_def example_component_def constructor_def)

subsection \<open>Mounting\<close>

text \<open>
  C8. \<^verbatim>\<open>componentDidMount\<close> sets the mount flag and leaves props and state alone. It
  calls \<^verbatim>\<open>_onInitializeGoogleApi\<close>, once, when \<^verbatim>\<open>_googleApiApplicationClientID\<close> is
  truthy (a non-empty string), and makes no call when it is not.
\<close>

theorem componentDidMount_sets_flag_and_initializes:
  "isMounted (componentDidMount c)
   \<and> props (componentDidMount c) = props c
   \<and> state (componentDidMount c) = state c
   \<and> (truthy (p_googleApiApplicationClientID (props c)) \<longrightarrow>
        effects (componentDidMount c) = effects c @ [InitializeGoogleApi])
   \<and> (\<not> truthy (p_googleApiApplicationClientID (props c)) \<longrightarrow>
        effects (componentDidMount c) = effects c)"
  by (simp add: componentDidMount_def Let_def)

theorem componentDidMount_sets_flag_and_initializes_witness:
  "truthy (p_googleApiApplicationClientID (props example_component))
   \<and> componentDidMount example_component = example_mounted Undefined Undefined []
   \<and> \<not> truthy (p_googleApiApplicationClientID (props example_component_no_google))
   \<and> effects (componentDidMount example_component_no_google) = []
   \<and> isMounted (componentDidMount example_component_no_google)"
  using componentDidMount_sets_flag_and_initializes [of example_component]
    componentDidMount_sets_flag_and_initializes [of example_component_no_google]
  by (simp add: example_mounted_def example_component_def example_component_no_google_def
        constructor_def example_props_def component.equality)

subsection \<open>The state-to-props mapping\<close>

text \<open>
  C9, as the specification states it, fails. The mapping reads five fields, not six,
  and a store need not have the feature state a field lives in: on a store without
  \<^verbatim>\<open>features/recording\<close>, and on the empty store, the call throws a \<^verbatim>\<open>TypeError\<close>
  instead of returning props with an \<^verbatim>\<open>undefined\<close> in them.
\<close>

theorem mapStateToProps_missing_feature_counterexample:
  "example_store_without_recording ''features/recording'' = None
   \<and> mapStateToProps example_store_without_recording
       = (Inl TypeError, example_store_without_recording)
   \<and> mapStateToProps (Map.empty :: string store) = (Inl TypeError, Map.empty)"
  by (simp add: mapStateToProps_def read_field_def property_def
        example_store_without_recording_def)

text \<open>
  C9, amended. \<^verbatim>\<open>_mapStateToProps\<close> never changes the store. On a store that has the
  four feature states \<^verbatim>\<open>features/base/conference\<close>, \<^verbatim>\<open>features/base/config\<close>,
  \<^verbatim>\<open>features/google-api\<close> and \<^verbatim>\<open>features/recording\<close> it returns the five props, each
  the value of its field as it is, and \<^verbatim>\<open>undefined\<close> for a field its feature state
  does not have. On a store that lacks one of the four it throws a \<^verbatim>\<open>TypeError\<close>.
\<close>

theorem mapStateToProps_projection:
  "snd (mapStateToProps st) = st
   \<and> (st ''features/base/conference'' = Some conference
        \<and> st ''features/base/config'' = Some config
        \<and> st ''features/google-api'' = Some google
        \<and> st ''features/recording'' = Some recording \<longrightarrow>
      fst (mapStateToProps st) =
        Inr \<lparr> m_conference =
                (case conference ''conference'' of None \<Rightarrow> Undefined | Some v \<Rightarrow> v),
              m_googleApiApplicationClientID =
                (case config ''googleApiApplicationClientID'' of
                   None \<Rightarrow> Undefined | Some v \<Rightarrow> v),
              m_googleAPIState =
                (case google ''googleAPIState'' of None \<Rightarrow> Undefined | Some v \<Rightarrow> v),
              m_googleProfileEmail =
                (case google ''profileEmail'' of None \<Rightarrow> Undefined | Some v \<Rightarrow> v),
              m_streamKey =
                (case recording ''streamKey'' of None \<Rightarrow> Undefined | Some v \<Rightarrow> v) \<rparr>)
   \<and> (st ''features/base/conference'' = None
        \<or> st ''features/base/config'' = None
        \<or> st ''features/google-api'' = None
        \<or> st ''features/recording'' = None \<longrightarrow>
      fst (mapStateToProps st) = Inl TypeError)"
  by (auto simp add: mapStateToProps_def read_field_def property_def split: option.splits)

theorem mapStateToProps_projection_witness:
  "example_store ''features/base/conference''
     = Some [''conference'' \<mapsto> Defined ''conference-1'']
   \<and> example_store ''features/base/config'' = Some Map.empty
   \<and> example_store ''features/google-api''
        = Some [''googleAPIState'' \<mapsto> Defined ''0'', ''profileEmail'' \<mapsto> Null]
   \<and> example_store ''features/recording'' = Some [''streamKey'' \<mapsto> Defined ''abc'']
   \<and> mapStateToProps example_store =
       (Inr \<lparr> m_conference = Defined ''conference-1'',
              m_googleApiApplicationClientID = Undefined,
              m_googleAPIState = Defined ''0'',
              m_googleProfileEmail = Null,
              m_streamKey = Defined ''abc'' \<rparr>,
        example_store)
   \<and> example_store_without_recording ''features/recording'' = None
   \<and> fst (mapStateToProps example_store_without_recording) = Inl TypeError"
proof -
  have s:
    "example_store ''features/base/conference''
       = Some [''conference'' \<mapsto> Defined ''conference-1'']"
    "example_store ''features/base/config'' = Some Map.empty"
    "example_store ''features/google-api''
        = Some [''googleAPIState'' \<mapsto> Defined ''0'', ''profileEmail'' \<mapsto> Null]"
    "example_store ''features/recording'' = Some [''streamKey'' \<mapsto> Defined ''abc'']"
    by (simp_all add: example_store_def)
  have n: "example_store_without_recording ''features/recording'' = None"
    by (simp add: example_store_without_recording_def)
  from mapStateToProps_projection
    [of example_store "[''conference'' \<mapsto> Defined ''conference-1'']" Map.empty
        "[''googleAPIState'' \<mapsto> Defined ''0'', ''profileEmail'' \<mapsto> Null]"
        "[''streamKey'' \<mapsto> Defined ''abc'']"] s
  have "mapStateToProps example_store =
       (Inr \<lparr> m_conference = Defined ''conference-1'',
              m_googleApiApplicationClientID = Undefined,
              m_googleAPIState = Defined ''0'',
              m_googleProfileEmail = Null,
              m_streamKey = Defined ''abc'' \<rparr>,
        example_store)"
    by (simp add: prod_eq_iff)
  moreover
  from mapStateToProps_projection [of example_store_without_recording] n
  have "fst (mapStateToProps example_store_without_recording) = Inl TypeError"
    by simp
  ultimately show ?thesis using s n by simp
qed

end
